theory Spec2Isabelle
  imports Complex_Main "HOL-Library.Word"
begin

section \<open>The QuadCast 2 LED control loop (quadcast2.py, \<open>usb_loop\<close>)\<close>

text \<open>
  The development embeds \<open>usb_loop\<close> (lines 31 to 96 of quadcast2.py).

  Conventions of the embedding:
  \<^item> Python's unbounded \<open>int\<close> is \<open>int\<close>; Python's \<open>float\<close> and numpy's \<open>float64\<close> are
    idealised as \<open>real\<close>, so rounding, overflow and NaN of IEEE arithmetic are outside
    the model; \<open>np.sin\<close> is \<open>sin\<close>;
  \<^item> the module-level globals that the loop reads are collected in the record
    \<open>settings\<close>; one tick sees one value of each of them (the writers run on another
    thread, which is outside the model);
  \<^item> the globals that the loop itself writes (\<open>wave_phase\<close>) and its local
    \<open>last_effect\<close> are the record \<open>anim_state\<close>, passed in and returned;
  \<^item> \<open>time.time()\<close> and the outcome of every pyusb call are inputs of a tick
    (record \<open>tick_env\<close>);
  \<^item> exceptions are values of type \<open>error\<close>.
\<close>

subsection \<open>Data\<close>

type_synonym byte = "8 word"

datatype error = USBError | ValueError | IndexError

text \<open>Lines 23 to 27: the globals read by the loop.\<close>

record settings =
  led_enabled :: bool
  led_mode :: string
  led_effect :: string
  brightness_raw :: int
  wave_speed :: real

text \<open>Line 28 (\<open>wave_phase\<close>) and line 44 (\<open>last_effect\<close>, initially \<open>None\<close>).\<close>

record anim_state =
  wave_phase :: real
  last_effect :: "string option"

subsection \<open>Python primitives\<close>

text \<open>\<open>int(x)\<close> on a float: truncation toward zero.\<close>

definition py_int :: "real \<Rightarrow> int" where
  "py_int x = (if 0 \<le> x then \<lfloor>x\<rfloor> else \<lceil>x\<rceil>)"

text \<open>\<open>bytearray(n)\<close>: \<open>n\<close> zero bytes.\<close>

definition bytearray :: "nat \<Rightarrow> byte list" where
  "bytearray n = replicate n 0"

text \<open>
  \<open>buf[i] = v\<close> on a bytearray, threaded through the exceptions raised so far: an index
  out of range raises IndexError, a value outside \<open>range(256)\<close> raises ValueError.
\<close>

fun set_item :: "error + byte list \<Rightarrow> nat \<Rightarrow> int \<Rightarrow> error + byte list" where
  "set_item (Inl e) i v = Inl e"
| "set_item (Inr buf) i v =
     (if length buf \<le> i then Inl IndexError
      else if v < 0 \<or> 256 \<le> v then Inl ValueError
      else Inr (buf[i := word_of_int v]))"

subsection \<open>The animation part of a tick (lines 52 to 78)\<close>

text \<open>Lines 52 to 54: the transition edge.\<close>

definition effect_transition :: "settings \<Rightarrow> anim_state \<Rightarrow> anim_state" where
  "effect_transition s st =
     (if Some (led_effect s) \<noteq> last_effect st
      then st\<lparr>wave_phase := 0, last_effect := Some (led_effect s)\<rparr>
      else st)"

text \<open>Lines 59 to 67: the dispatch on \<open>led_mode\<close>, starting from \<open>lower = upper = 0\<close>.\<close>

definition base_pair :: "string \<Rightarrow> int \<Rightarrow> int \<times> int" where
  "base_pair mode b =
     (if mode = ''bottom'' then (b, 0)
      else if mode = ''top'' then (0, b)
      else if mode = ''both'' then (b, b)
      else (0, 0))"

text \<open>Line 71: \<open>int(t*2)%2\<close>.\<close>

definition blink_state :: "real \<Rightarrow> int" where
  "blink_state t = py_int (t * 2) mod 2"

text \<open>Line 76: \<open>(np.sin(wave_phase)+1)/2\<close>.\<close>

definition wave_factor :: "real \<Rightarrow> real" where
  "wave_factor ph = (sin ph + 1) / 2"

text \<open>
  Lines 52 to 78 as a whole: from the settings, the clock value \<open>t\<close> and the animation
  state to the new animation state and the pair \<open>(lower, upper)\<close>.
\<close>

definition animate :: "settings \<Rightarrow> real \<Rightarrow> anim_state \<Rightarrow> anim_state \<times> int \<times> int" where
  "animate s t st0 =
     (let st = effect_transition s st0 in
      if led_enabled s then
        (case base_pair (led_mode s) (brightness_raw s) of (lower, upper) \<Rightarrow>
           if led_effect s = ''blink'' then
             (let state = blink_state t in (st, lower * state, upper * state))
           else if led_effect s = ''wave'' then
             (let ph = wave_phase st + 0.05 * wave_speed s;
                  factor = wave_factor ph
              in (st\<lparr>wave_phase := ph\<rparr>,
                  py_int (of_int lower * factor), py_int (of_int upper * factor)))
           else (st, lower, upper))
      else (st, 0, 0))"

subsection \<open>The two command buffers (lines 80 to 84 and 87 to 90)\<close>

definition brightness_cmd :: "int \<Rightarrow> int \<Rightarrow> error + byte list" where
  "brightness_cmd lower upper =
     set_item (set_item (set_item (set_item (Inr (bytearray 64)) 0 0x81) 1 lower) 4 0x81) 5 upper"

definition heartbeat_cmd :: "int \<Rightarrow> int \<Rightarrow> error + byte list" where
  "heartbeat_cmd lower upper =
     set_item (set_item (set_item (Inr (bytearray 64)) 0 0x04) 1 (max lower upper)) 8 0x01"

subsection \<open>One iteration of the loop (lines 47 to 96)\<close>

text \<open>
  What the environment contributes to one iteration: the clock, and whether each pyusb
  call returns (\<open>True\<close>) or raises \<open>usb.core.USBError\<close> (\<open>False\<close>).
\<close>

record tick_env =
  now :: real
  claim_ok :: bool
  transfer1_ok :: bool
  transfer2_ok :: bool
  release_ok :: bool

text \<open>
  The device as the loop sees it: whether interface 0 is claimed, and the payloads of the
  control transfers (request type 0x21, request 0x09, value 0x0300) completed so far,
  oldest first.
\<close>

record device =
  claimed :: bool
  sent :: "byte list list"

text \<open>
  How an iteration ends: in \<open>time.sleep(d)\<close>, or in an exception that the
  \<open>except usb.core.USBError\<close> clause does not catch and that ends the thread.
\<close>

datatype tick_end = Slept real | Uncaught error

text \<open>
  The \<open>try\<close> block. A \<open>USBError\<close> leaves the block at the call that raised it, with the
  state as it is at that point, and the handler of line 96 sleeps 0.5 s.
\<close>

definition usb_tick ::
  "tick_env \<Rightarrow> settings \<Rightarrow> device \<times> anim_state \<Rightarrow> (device \<times> anim_state) \<times> tick_end" where
  "usb_tick env s ds =
     (case ds of (dev, st0) \<Rightarrow>
      if \<not> claim_ok env then ((dev, st0), Slept 0.5)
      else
        let dev1 = dev\<lparr>claimed := True\<rparr> in
        (case animate s (now env) st0 of (st, lower, upper) \<Rightarrow>
          (case brightness_cmd lower upper of
             Inl e \<Rightarrow> ((dev1, st), Uncaught e)
           | Inr cmd \<Rightarrow>
              if \<not> transfer1_ok env then ((dev1, st), Slept 0.5)
              else
                let dev2 = dev1\<lparr>sent := sent dev1 @ [cmd]\<rparr> in
                (case heartbeat_cmd lower upper of
                   Inl e \<Rightarrow> ((dev2, st), Uncaught e)
                 | Inr hb \<Rightarrow>
                    if \<not> transfer2_ok env then ((dev2, st), Slept 0.5)
                    else
                      let dev3 = dev2\<lparr>sent := sent dev2 @ [hb]\<rparr> in
                      if \<not> release_ok env then ((dev3, st), Slept 0.5)
                      else ((dev3\<lparr>claimed := False\<rparr>, st), Slept 0.05)))))"

subsection \<open>The loop\<close>

text \<open>
  The loop runs for as long as the global \<open>running\<close> is true, so it is driven by its
  inputs: each element of the list is what one evaluation of the loop head and one
  iteration see (the value of \<open>running\<close>, the settings, the environment). The result is
  the final state and how each iteration ended, oldest first. An uncaught exception ends
  the loop.
\<close>

fun usb_loop_from ::
  "(bool \<times> settings \<times> tick_env) list \<Rightarrow> device \<times> anim_state \<Rightarrow>
     (device \<times> anim_state) \<times> tick_end list" where
  "usb_loop_from [] ds = (ds, [])"
| "usb_loop_from ((running, s, env) # rest) ds =
     (if \<not> running then (ds, [])
      else (case usb_tick env s ds of
              (ds', Uncaught e) \<Rightarrow> (ds', [Uncaught e])
            | (ds', Slept d) \<Rightarrow>
                (case usb_loop_from rest ds' of (ds'', ends) \<Rightarrow> (ds'', Slept d # ends))))"

text \<open>
  Lines 33 to 44: \<open>usb.core.find\<close> returns the device or \<open>None\<close>; without a device the
  function returns at once. \<open>phase0\<close> is the value of the global \<open>wave_phase\<close> at the call.
  The detachment of the kernel driver (lines 38 to 42) changes nothing that the loop
  reads, and its \<open>USBError\<close> is discarded, so it has no counterpart here.
\<close>

definition usb_loop ::
  "device option \<Rightarrow> real \<Rightarrow> (bool \<times> settings \<times> tick_env) list \<Rightarrow>
     ((device \<times> anim_state) \<times> tick_end list) option" where
  "usb_loop found phase0 inputs =
     (case found of
        None \<Rightarrow> None
      | Some dev \<Rightarrow> Some (usb_loop_from inputs (dev, \<lparr>wave_phase = phase0, last_effect = None\<rparr>)))"

section \<open>Properties\<close>

subsection \<open>Helper facts\<close>

lemma py_int_zero: "py_int 0 = 0"
  by (simp add: py_int_def)

lemma py_int_of_int: "py_int (of_int n) = n"
  by (simp add: py_int_def)

lemma py_int_half: "0 \<le> b \<Longrightarrow> py_int (of_int b * (1/2)) = b div 2"
proof -
  assume b: "0 \<le> b"
  have "\<lfloor>real_of_int b / real_of_int 2\<rfloor> = b div 2" by (rule floor_divide_of_int_eq)
  with b show ?thesis by (simp add: py_int_def)
qed

lemma byte_of_int: "0 \<le> v \<Longrightarrow> v < 256 \<Longrightarrow> uint (word_of_int v :: byte) = v"
  by (simp add: uint_word_of_int take_bit_int_eq_self)

lemma brightness_cmd_ok:
  assumes "0 \<le> lower" "lower < 256" "0 \<le> upper" "upper < 256"
  shows "brightness_cmd lower upper =
    Inr ([0x81, word_of_int lower, 0, 0, 0x81, word_of_int upper] @ replicate 58 0)"
  using assms
  by (simp add: brightness_cmd_def bytearray_def eval_nat_numeral)

lemma heartbeat_cmd_ok:
  assumes "0 \<le> lower" "lower < 256" "0 \<le> upper" "upper < 256"
  shows "heartbeat_cmd lower upper =
    Inr ([0x04, word_of_int (max lower upper), 0, 0, 0, 0, 0, 0, 0x01] @ replicate 55 0)"
  using assms
  by (simp add: heartbeat_cmd_def bytearray_def eval_nat_numeral max_def)

lemma static_pair_eq:
  "led_enabled s \<Longrightarrow>
   snd (animate (s\<lparr>led_effect := ''static''\<rparr>) t st) = base_pair (led_mode s) (brightness_raw s)"
  by (simp add: animate_def Let_def split: prod.splits)

lemma wave_factor_periodic: "wave_factor (ph + 2 * pi) = wave_factor ph"
  by (simp add: wave_factor_def)

lemma wave_factor_0: "wave_factor 0 = 1/2"
  by (simp add: wave_factor_def)

lemma wave_factor_bounds: "0 \<le> wave_factor ph \<and> wave_factor ph \<le> 1"
proof -
  have lo: "- 1 \<le> sin ph" by (rule sin_ge_minus_one)
  have hi: "sin ph \<le> 1" by (rule sin_le_one)
  have "0 \<le> sin ph + 1" using lo by linarith
  moreover have "sin ph + 1 \<le> 2" using hi by linarith
  ultimately show ?thesis unfolding wave_factor_def by simp
qed

lemma blink_state_nonneg: "0 \<le> t \<Longrightarrow> blink_state t = \<lfloor>t * 2\<rfloor> mod 2"
  by (simp add: blink_state_def py_int_def)

lemma blink_state_cases: "blink_state t = 0 \<or> blink_state t = 1"
  unfolding blink_state_def by presburger

lemma blink_state_half: "0 \<le> t \<Longrightarrow> blink_state (t + 1/2) = 1 - blink_state t"
proof -
  assume t: "0 \<le> t"
  have "(t + 1/2) * 2 = t * 2 + 1" by (simp add: algebra_simps)
  then have "\<lfloor>(t + 1/2) * 2\<rfloor> = \<lfloor>t * 2\<rfloor> + 1" by simp
  moreover have "0 \<le> t + 1/2" using t by simp
  ultimately have "blink_state (t + 1/2) = (\<lfloor>t * 2\<rfloor> + 1) mod 2"
    using blink_state_nonneg [of "t + 1/2"] by simp
  also have "\<dots> = 1 - \<lfloor>t * 2\<rfloor> mod 2" by presburger
  finally show ?thesis using t by (simp add: blink_state_nonneg)
qed

lemma animate_blink:
  "led_enabled s \<Longrightarrow> led_effect s = ''blink'' \<Longrightarrow>
   snd (animate s t st) = (fst (base_pair (led_mode s) (brightness_raw s)) * blink_state t,
                           snd (base_pair (led_mode s) (brightness_raw s)) * blink_state t)"
  by (simp add: animate_def Let_def split: prod.splits)

lemma animate_wave:
  "led_enabled s \<Longrightarrow> led_effect s = ''wave'' \<Longrightarrow>
   animate s t st =
     ((effect_transition s st)\<lparr>wave_phase :=
         wave_phase (effect_transition s st) + 0.05 * wave_speed s\<rparr>,
      py_int (of_int (fst (base_pair (led_mode s) (brightness_raw s))) *
              wave_factor (wave_phase (effect_transition s st) + 0.05 * wave_speed s)),
      py_int (of_int (snd (base_pair (led_mode s) (brightness_raw s))) *
              wave_factor (wave_phase (effect_transition s st) + 0.05 * wave_speed s)))"
  by (simp add: animate_def Let_def split: prod.splits)

lemma fst_animate:
  "fst (animate s t st) =
     (if led_enabled s \<and> led_effect s = ''wave''
      then (effect_transition s st)\<lparr>wave_phase :=
              wave_phase (effect_transition s st) + 0.05 * wave_speed s\<rparr>
      else effect_transition s st)"
  by (simp add: animate_def Let_def split: prod.splits)

lemma base_pair_unknown:
  "mode \<noteq> ''bottom'' \<Longrightarrow> mode \<noteq> ''top'' \<Longrightarrow> mode \<noteq> ''both'' \<Longrightarrow> base_pair mode b = (0, 0)"
  by (simp add: base_pair_def)

lemma animate_unknown_mode:
  "led_mode s \<noteq> ''bottom'' \<Longrightarrow> led_mode s \<noteq> ''top'' \<Longrightarrow> led_mode s \<noteq> ''both'' \<Longrightarrow>
   snd (animate s t st) = (0, 0)"
  by (simp add: animate_def Let_def base_pair_unknown py_int_zero)

lemma usb_tick_zero:
  "snd (animate s (now env) st) = (0, 0) \<Longrightarrow> snd (usb_tick env s (dev, st)) \<noteq> Uncaught e"
  by (cases "animate s (now env) st")
     (simp add: usb_tick_def Let_def brightness_cmd_ok heartbeat_cmd_ok)

lemma usb_tick_success:
  assumes "claim_ok env" "transfer1_ok env" "transfer2_ok env" "release_ok env"
    and "animate s (now env) st = (st', lower, upper)"
    and "brightness_cmd lower upper = Inr cmd" "heartbeat_cmd lower upper = Inr hb"
  shows "usb_tick env s (dev, st) =
           ((dev\<lparr>claimed := False, sent := sent dev @ [cmd, hb]\<rparr>, st'), Slept 0.05)"
  using assms by (simp add: usb_tick_def Let_def)

lemma usb_tick_transfer1_fails:
  assumes "claim_ok env" "\<not> transfer1_ok env"
    and "animate s (now env) st = (st', lower, upper)"
    and "brightness_cmd lower upper = Inr cmd"
  shows "usb_tick env s (dev, st) = ((dev\<lparr>claimed := True\<rparr>, st'), Slept 0.5)"
  using assms by (simp add: usb_tick_def Let_def)

lemma usb_tick_transfer2_fails:
  assumes "claim_ok env" "transfer1_ok env" "\<not> transfer2_ok env"
    and "animate s (now env) st = (st', lower, upper)"
    and "brightness_cmd lower upper = Inr cmd" "heartbeat_cmd lower upper = Inr hb"
  shows "usb_tick env s (dev, st) =
           ((dev\<lparr>claimed := True, sent := sent dev @ [cmd]\<rparr>, st'), Slept 0.5)"
  using assms by (simp add: usb_tick_def Let_def)

lemma effect_transition_changed:
  "last_effect st \<noteq> Some (led_effect s) \<Longrightarrow>
   effect_transition s st = \<lparr>wave_phase = 0, last_effect = Some (led_effect s)\<rparr>"
  by (cases st) (auto simp: effect_transition_def)

lemma effect_transition_same:
  "last_effect st = Some (led_effect s) \<Longrightarrow> effect_transition s st = st"
  by (simp add: effect_transition_def)

lemma effect_transition_idem:
  "effect_transition s (effect_transition s st) = effect_transition s st"
  by (simp add: effect_transition_def)

lemma animate_after_transition:
  "animate s t (effect_transition s st) = animate s t st"
  by (simp add: animate_def effect_transition_idem)

lemma default_animate:
  "animate \<lparr>led_enabled = True, led_mode = ''bottom'', led_effect = ''static'',
        brightness_raw = 24, wave_speed = 1\<rparr> t \<lparr>wave_phase = 0, last_effect = None\<rparr>
   = (\<lparr>wave_phase = 0, last_effect = Some ''static''\<rparr>, 24, 0)"
  by (simp add: animate_def Let_def base_pair_def effect_transition_def)

lemma usb_tick_transfer_fails_claimed:
  assumes "claim_ok env" and "\<not> transfer1_ok env \<or> \<not> transfer2_ok env"
    and "snd (usb_tick env s (dev, st)) = Slept d"
  shows "claimed (fst (fst (usb_tick env s (dev, st)))) \<and> d = 0.5"
  using assms
  by (cases "animate s (now env) st")
     (auto simp: usb_tick_def Let_def split: sum.splits if_splits)

subsection \<open>The frame encoder\<close>

text \<open>
  Claim C2. For every pair \<open>(lower, upper)\<close> with both components in \<open>[0,242]\<close> the
  encoder raises nothing and yields two buffers of 64 bytes: the brightness command
  holds 0x81 at offset 0, \<open>lower\<close> at offset 1, 0x81 at offset 4, \<open>upper\<close> at offset 5 and
  zero elsewhere; the heartbeat command holds 0x04 at offset 0, \<open>max lower upper\<close> at
  offset 1, 0x01 at offset 8 and zero elsewhere. The bytes written read back, as
  unsigned values, as the integers given. The witness is the pair (120, 200) of the
  specification.
\<close>

theorem encoder_buffers:
  assumes "0 \<le> lower" and "lower \<le> 242" and "0 \<le> upper" and "upper \<le> 242"
  shows "brightness_cmd lower upper =
           Inr ([0x81, word_of_int lower, 0, 0, 0x81, word_of_int upper] @ replicate 58 0) \<and>
         heartbeat_cmd lower upper =
           Inr ([0x04, word_of_int (max lower upper), 0, 0, 0, 0, 0, 0, 0x01] @ replicate 55 0) \<and>
         uint (word_of_int lower :: byte) = lower \<and>
         uint (word_of_int upper :: byte) = upper \<and>
         uint (word_of_int (max lower upper) :: byte) = max lower upper \<and>
         length ([0x81, word_of_int lower, 0, 0, 0x81, word_of_int upper]
                  @ replicate 58 (0::byte)) = 64 \<and>
         length ([0x04, word_of_int (max lower upper), 0, 0, 0, 0, 0, 0, 0x01]
                  @ replicate 55 (0::byte)) = 64"
proof -
  have r: "0 \<le> lower" "lower < 256" "0 \<le> upper" "upper < 256"
    using assms by simp_all
  have m: "0 \<le> max lower upper" "max lower upper < 256"
    using r by simp_all
  show ?thesis
    using brightness_cmd_ok [OF r] heartbeat_cmd_ok [OF r]
      byte_of_int [OF r(1,2)] byte_of_int [OF r(3,4)] byte_of_int [OF m]
    by simp
qed

theorem encoder_buffers_witness:
  "brightness_cmd 120 200 = Inr ([0x81, 120, 0, 0, 0x81, 200] @ replicate 58 0) \<and>
   heartbeat_cmd 120 200 = Inr ([0x04, 200, 0, 0, 0, 0, 0, 0, 0x01] @ replicate 55 0)"
  using encoder_buffers [of 120 200] by simp

subsection \<open>The animation engine\<close>

text \<open>
  Claim C3. With \<open>led_enabled\<close> false, the pair computed by a tick is \<open>(0, 0)\<close>, for
  every mode, effect, brightness, wave speed, clock value and animation state.
\<close>

theorem disabled_output_zero:
  "\<not> led_enabled s \<Longrightarrow> snd (animate s t st) = (0, 0)"
  by (simp add: animate_def Let_def)

theorem disabled_output_zero_witness:
  "\<not> led_enabled \<lparr>led_enabled = False, led_mode = ''both'', led_effect = ''wave'',
      brightness_raw = 242, wave_speed = 5\<rparr> \<and>
   snd (animate \<lparr>led_enabled = False, led_mode = ''both'', led_effect = ''wave'',
      brightness_raw = 242, wave_speed = 5\<rparr> 3
      \<lparr>wave_phase = 1, last_effect = Some ''wave''\<rparr>) = (0, 0)"
  using disabled_output_zero [of "\<lparr>led_enabled = False, led_mode = ''both'',
      led_effect = ''wave'', brightness_raw = 242, wave_speed = 5\<rparr>" 3
      "\<lparr>wave_phase = 1, last_effect = Some ''wave''\<rparr>"]
  by simp

text \<open>
  Claim C4. With \<open>led_enabled\<close> true, effect \<open>static\<close> and a brightness \<open>b\<close> in
  \<open>[0,242]\<close>, the pair computed by a tick is \<open>(b, 0)\<close> for mode \<open>bottom\<close>, \<open>(0, b)\<close> for
  mode \<open>top\<close> and \<open>(b, b)\<close> for mode \<open>both\<close>.
\<close>

theorem static_output:
  assumes "led_enabled s" and "led_effect s = ''static''"
    and "0 \<le> brightness_raw s" and "brightness_raw s \<le> 242"
  shows "(led_mode s = ''bottom'' \<longrightarrow> snd (animate s t st) = (brightness_raw s, 0)) \<and>
         (led_mode s = ''top'' \<longrightarrow> snd (animate s t st) = (0, brightness_raw s)) \<and>
         (led_mode s = ''both'' \<longrightarrow>
            snd (animate s t st) = (brightness_raw s, brightness_raw s))"
  using assms by (simp add: animate_def Let_def base_pair_def)

theorem static_output_witness:
  "snd (animate \<lparr>led_enabled = True, led_mode = ''bottom'', led_effect = ''static'',
      brightness_raw = 121, wave_speed = 1\<rparr> 7 \<lparr>wave_phase = 0, last_effect = None\<rparr>) = (121, 0) \<and>
   snd (animate \<lparr>led_enabled = True, led_mode = ''top'', led_effect = ''static'',
      brightness_raw = 121, wave_speed = 1\<rparr> 7 \<lparr>wave_phase = 0, last_effect = None\<rparr>) = (0, 121) \<and>
   snd (animate \<lparr>led_enabled = True, led_mode = ''both'', led_effect = ''static'',
      brightness_raw = 121, wave_speed = 1\<rparr> 7 \<lparr>wave_phase = 0, last_effect = None\<rparr>) = (121, 121)"
  using static_output [of "\<lparr>led_enabled = True, led_mode = ''bottom'', led_effect = ''static'',
      brightness_raw = 121, wave_speed = 1\<rparr>" 7 "\<lparr>wave_phase = 0, last_effect = None\<rparr>"]
    static_output [of "\<lparr>led_enabled = True, led_mode = ''top'', led_effect = ''static'',
      brightness_raw = 121, wave_speed = 1\<rparr>" 7 "\<lparr>wave_phase = 0, last_effect = None\<rparr>"]
    static_output [of "\<lparr>led_enabled = True, led_mode = ''both'', led_effect = ''static'',
      brightness_raw = 121, wave_speed = 1\<rparr>" 7 "\<lparr>wave_phase = 0, last_effect = None\<rparr>"]
  by simp

text \<open>
  Claim C5. With \<open>led_enabled\<close> true and effect \<open>wave\<close>, a tick first advances the
  phase (as left by the transition check) by \<open>0.05 * wave_speed\<close>, and its pair is the
  pair that effect \<open>static\<close> would give under the same settings, each component
  multiplied by \<open>(sin phase + 1) / 2\<close> at the advanced phase and truncated toward zero.
  The factor has period \<open>2 * pi\<close> in the phase. Where the advanced phase is 0 the
  factor is one half and, for a brightness that is not negative, the pair is the static
  pair halved with the integer division.
\<close>

theorem wave_output:
  assumes "led_enabled s" and "led_effect s = ''wave''"
  shows "wave_phase (fst (animate s t st)) =
           wave_phase (effect_transition s st) + 0.05 * wave_speed s \<and>
         snd (animate s t st) =
           (py_int (of_int (fst (snd (animate (s\<lparr>led_effect := ''static''\<rparr>) t st))) *
                    wave_factor (wave_phase (fst (animate s t st)))),
            py_int (of_int (snd (snd (animate (s\<lparr>led_effect := ''static''\<rparr>) t st))) *
                    wave_factor (wave_phase (fst (animate s t st))))) \<and>
         wave_factor (wave_phase (fst (animate s t st))) =
           (sin (wave_phase (fst (animate s t st))) + 1) / 2 \<and>
         (\<forall>ph. wave_factor (ph + 2 * pi) = wave_factor ph) \<and>
         (0 \<le> brightness_raw s \<and> wave_phase (fst (animate s t st)) = 0 \<longrightarrow>
            snd (animate s t st) =
              (fst (snd (animate (s\<lparr>led_effect := ''static''\<rparr>) t st)) div 2,
               snd (snd (animate (s\<lparr>led_effect := ''static''\<rparr>) t st)) div 2))"
proof -
  let ?b = "base_pair (led_mode s) (brightness_raw s)"
  let ?ph = "wave_phase (effect_transition s st) + 0.05 * wave_speed s"
  have st: "snd (animate (s\<lparr>led_effect := ''static''\<rparr>) t st) = ?b"
    using assms(1) by (rule static_pair_eq)
  have a: "animate s t st =
     ((effect_transition s st)\<lparr>wave_phase := ?ph\<rparr>,
      py_int (of_int (fst ?b) * wave_factor ?ph), py_int (of_int (snd ?b) * wave_factor ?ph))"
    using assms by (rule animate_wave)
  have ph: "wave_phase (fst (animate s t st)) = ?ph"
    by (simp add: a)
  have out: "snd (animate s t st) =
      (py_int (of_int (fst ?b) * wave_factor ?ph), py_int (of_int (snd ?b) * wave_factor ?ph))"
    by (simp add: a)
  have half: "0 \<le> brightness_raw s \<Longrightarrow> ?ph = 0 \<Longrightarrow>
      snd (animate s t st) = (fst ?b div 2, snd ?b div 2)"
  proof -
    assume b: "0 \<le> brightness_raw s" and z: "?ph = 0"
    have "0 \<le> fst ?b" using b by (simp add: base_pair_def)
    then have l: "py_int (of_int (fst ?b) * (1/2)) = fst ?b div 2"
      by (rule py_int_half)
    have "0 \<le> snd ?b" using b by (simp add: base_pair_def)
    then have u: "py_int (of_int (snd ?b) * (1/2)) = snd ?b div 2"
      by (rule py_int_half)
    show ?thesis unfolding out z wave_factor_0 l u by (rule refl)
  qed
  show ?thesis
    unfolding st ph
    using out half by (simp add: wave_factor_periodic wave_factor_def)
qed

theorem wave_output_witness:
  "snd (animate \<lparr>led_enabled = True, led_mode = ''both'', led_effect = ''wave'',
      brightness_raw = 121, wave_speed = 1\<rparr> 7
      \<lparr>wave_phase = - 0.05, last_effect = Some ''wave''\<rparr>) = (60, 60)"
  using wave_output [of "\<lparr>led_enabled = True, led_mode = ''both'', led_effect = ''wave'',
      brightness_raw = 121, wave_speed = 1\<rparr>" 7
      "\<lparr>wave_phase = - 0.05, last_effect = Some ''wave''\<rparr>"]
  by (simp add: effect_transition_def animate_def Let_def base_pair_def)

text \<open>
  Claim C6. With \<open>led_enabled\<close> true, effect \<open>blink\<close> and a clock value \<open>t\<close> that is
  not negative, the pair of a tick is the pair that effect \<open>static\<close> would give, both
  components multiplied by the one value \<open>floor (t * 2) mod 2\<close>. So the pair is \<open>(0, 0)\<close>
  or the static pair; half a time unit later the multiplier is the other of 0 and 1,
  and one time unit later the pair is the same again, whatever the animation state.
\<close>

theorem blink_output:
  assumes "led_enabled s" and "led_effect s = ''blink''" and "0 \<le> t"
  shows "snd (animate s t st) =
           (fst (snd (animate (s\<lparr>led_effect := ''static''\<rparr>) t st)) * (\<lfloor>t * 2\<rfloor> mod 2),
            snd (snd (animate (s\<lparr>led_effect := ''static''\<rparr>) t st)) * (\<lfloor>t * 2\<rfloor> mod 2)) \<and>
         (snd (animate s t st) = (0, 0) \<or>
          snd (animate s t st) = snd (animate (s\<lparr>led_effect := ''static''\<rparr>) t st)) \<and>
         snd (animate s (t + 1/2) st') =
           (fst (snd (animate (s\<lparr>led_effect := ''static''\<rparr>) t st)) * (1 - \<lfloor>t * 2\<rfloor> mod 2),
            snd (snd (animate (s\<lparr>led_effect := ''static''\<rparr>) t st)) * (1 - \<lfloor>t * 2\<rfloor> mod 2)) \<and>
         snd (animate s (t + 1) st') = snd (animate s t st)"
proof -
  let ?b = "base_pair (led_mode s) (brightness_raw s)"
  have st: "snd (animate (s\<lparr>led_effect := ''static''\<rparr>) t st) = ?b"
    using assms(1) by (rule static_pair_eq)
  have bs: "blink_state t = \<lfloor>t * 2\<rfloor> mod 2"
    using assms(3) by (rule blink_state_nonneg)
  have bh: "blink_state (t + 1/2) = 1 - \<lfloor>t * 2\<rfloor> mod 2"
    using blink_state_half [OF assms(3)] bs by simp
  have "0 \<le> t + 1/2" using assms(3) by simp
  then have "blink_state (t + 1/2 + 1/2) = 1 - blink_state (t + 1/2)"
    by (rule blink_state_half)
  moreover have "t + 1/2 + 1/2 = t + 1" by simp
  ultimately have "blink_state (t + 1) = 1 - blink_state (t + 1/2)"
    by (simp only:)
  then have b1: "blink_state (t + 1) = \<lfloor>t * 2\<rfloor> mod 2"
    unfolding bh by presburger
  have o: "\<And>u x. snd (animate s u x) = (fst ?b * blink_state u, snd ?b * blink_state u)"
    using assms(1,2) by (rule animate_blink)
  have c: "\<lfloor>t * 2\<rfloor> mod 2 = 0 \<or> \<lfloor>t * 2\<rfloor> mod 2 = 1" by presburger
  show ?thesis
    unfolding st o bs bh b1 using c by (auto simp: prod_eq_iff)
qed

theorem blink_output_witness:
  "snd (animate \<lparr>led_enabled = True, led_mode = ''both'', led_effect = ''blink'',
      brightness_raw = 121, wave_speed = 1\<rparr> (3/4)
      \<lparr>wave_phase = 0, last_effect = None\<rparr>) = (121, 121) \<and>
   snd (animate \<lparr>led_enabled = True, led_mode = ''both'', led_effect = ''blink'',
      brightness_raw = 121, wave_speed = 1\<rparr> (3/4 + 1/2)
      \<lparr>wave_phase = 0, last_effect = Some ''blink''\<rparr>) = (0, 0)"
  using blink_output [of "\<lparr>led_enabled = True, led_mode = ''both'', led_effect = ''blink'',
      brightness_raw = 121, wave_speed = 1\<rparr>" "3/4"
      "\<lparr>wave_phase = 0, last_effect = None\<rparr>" "\<lparr>wave_phase = 0, last_effect = Some ''blink''\<rparr>"]
  by (simp add: animate_def Let_def base_pair_def)

text \<open>
  Claim C7. On a tick whose effect differs from the stored \<open>last_effect\<close>, the
  transition check sets the phase to 0 and \<open>last_effect\<close> to the observed effect, and
  the rest of the tick runs on that state: the whole tick equals the tick started
  from phase 0 with \<open>last_effect\<close> already updated, so nothing of the old phase
  survives. After the tick \<open>last_effect\<close> is the observed effect, and the phase is 0,
  or one wave step \<open>0.05 * wave_speed\<close> away from 0 when the tick is an enabled wave
  tick. This holds for every stored \<open>last_effect\<close> (so also on the way back to an
  effect used before) and whether or not \<open>led_enabled\<close> is set. The witness walks the
  two edges of wave, blink, wave.
\<close>

theorem effect_change_resets_phase:
  assumes "last_effect st \<noteq> Some (led_effect s)"
  shows "effect_transition s st = \<lparr>wave_phase = 0, last_effect = Some (led_effect s)\<rparr> \<and>
         animate s t st = animate s t \<lparr>wave_phase = 0, last_effect = Some (led_effect s)\<rparr> \<and>
         last_effect (fst (animate s t st)) = Some (led_effect s) \<and>
         wave_phase (fst (animate s t st)) =
           (if led_enabled s \<and> led_effect s = ''wave'' then 0.05 * wave_speed s else 0)"
proof -
  have e: "effect_transition s st = \<lparr>wave_phase = 0, last_effect = Some (led_effect s)\<rparr>"
    using assms by (rule effect_transition_changed)
  have "animate s t st = animate s t (effect_transition s st)"
    by (rule animate_after_transition [symmetric])
  then have a: "animate s t st = animate s t \<lparr>wave_phase = 0, last_effect = Some (led_effect s)\<rparr>"
    unfolding e .
  show ?thesis
  proof (intro conjI)
    show "effect_transition s st = \<lparr>wave_phase = 0, last_effect = Some (led_effect s)\<rparr>"
      by (rule e)
    show "animate s t st = animate s t \<lparr>wave_phase = 0, last_effect = Some (led_effect s)\<rparr>"
      by (rule a)
    show "last_effect (fst (animate s t st)) = Some (led_effect s)"
      unfolding fst_animate e by simp
    show "wave_phase (fst (animate s t st)) =
           (if led_enabled s \<and> led_effect s = ''wave'' then 0.05 * wave_speed s else 0)"
      unfolding fst_animate e by simp
  qed
qed

theorem effect_change_resets_phase_witness:
  "wave_phase (fst (animate
      \<lparr>led_enabled = True, led_mode = ''both'', led_effect = ''blink'', brightness_raw = 121,
        wave_speed = 1\<rparr> 1 \<lparr>wave_phase = 3, last_effect = Some ''wave''\<rparr>)) = 0 \<and>
   wave_phase (fst (animate
      \<lparr>led_enabled = False, led_mode = ''both'', led_effect = ''wave'', brightness_raw = 121,
        wave_speed = 1\<rparr> 2 \<lparr>wave_phase = 3, last_effect = Some ''blink''\<rparr>)) = 0 \<and>
   wave_phase (fst (animate
      \<lparr>led_enabled = True, led_mode = ''both'', led_effect = ''wave'', brightness_raw = 121,
        wave_speed = 1\<rparr> 2 \<lparr>wave_phase = 3, last_effect = Some ''blink''\<rparr>)) = 0.05"
proof (intro conjI)
  show "wave_phase (fst (animate
      \<lparr>led_enabled = True, led_mode = ''both'', led_effect = ''blink'', brightness_raw = 121,
        wave_speed = 1\<rparr> 1 \<lparr>wave_phase = 3, last_effect = Some ''wave''\<rparr>)) = 0"
    using effect_change_resets_phase [of "\<lparr>wave_phase = 3, last_effect = Some ''wave''\<rparr>"
      "\<lparr>led_enabled = True, led_mode = ''both'', led_effect = ''blink'', brightness_raw = 121,
        wave_speed = 1\<rparr>" 1, THEN conjunct2, THEN conjunct2, THEN conjunct2]
    by simp
  show "wave_phase (fst (animate
      \<lparr>led_enabled = False, led_mode = ''both'', led_effect = ''wave'', brightness_raw = 121,
        wave_speed = 1\<rparr> 2 \<lparr>wave_phase = 3, last_effect = Some ''blink''\<rparr>)) = 0"
    using effect_change_resets_phase [of "\<lparr>wave_phase = 3, last_effect = Some ''blink''\<rparr>"
      "\<lparr>led_enabled = False, led_mode = ''both'', led_effect = ''wave'', brightness_raw = 121,
        wave_speed = 1\<rparr>" 2, THEN conjunct2, THEN conjunct2, THEN conjunct2]
    by simp
  show "wave_phase (fst (animate
      \<lparr>led_enabled = True, led_mode = ''both'', led_effect = ''wave'', brightness_raw = 121,
        wave_speed = 1\<rparr> 2 \<lparr>wave_phase = 3, last_effect = Some ''blink''\<rparr>)) = 0.05"
    using effect_change_resets_phase [of "\<lparr>wave_phase = 3, last_effect = Some ''blink''\<rparr>"
      "\<lparr>led_enabled = True, led_mode = ''both'', led_effect = ''wave'', brightness_raw = 121,
        wave_speed = 1\<rparr>" 2, THEN conjunct2, THEN conjunct2, THEN conjunct2]
    by simp
qed

text \<open>
  Claim C8, as stated: on every tick whose effect is \<open>wave\<close>, equal to the stored
  \<open>last_effect\<close>, with \<open>wave_speed > 0\<close>, the phase after the tick is greater than the
  phase before, whatever \<open>led_enabled\<close> is. It fails with \<open>led_enabled\<close> false: the
  advance of line 75 is inside \<open>if led_enabled\<close> (line 58), so the phase stays where
  it is.
\<close>

theorem wave_phase_advance_counterexample:
  "led_effect \<lparr>led_enabled = False, led_mode = ''both'', led_effect = ''wave'',
      brightness_raw = 121, wave_speed = 1\<rparr> = ''wave'' \<and>
   last_effect \<lparr>wave_phase = 0, last_effect = Some ''wave''\<rparr> = Some ''wave'' \<and>
   0 < wave_speed \<lparr>led_enabled = False, led_mode = ''both'', led_effect = ''wave'',
      brightness_raw = 121, wave_speed = 1\<rparr> \<and>
   \<not> wave_phase \<lparr>wave_phase = 0, last_effect = Some ''wave''\<rparr>
     < wave_phase (fst (animate \<lparr>led_enabled = False, led_mode = ''both'', led_effect = ''wave'',
          brightness_raw = 121, wave_speed = 1\<rparr> 0 \<lparr>wave_phase = 0, last_effect = Some ''wave''\<rparr>))"
  by (simp add: fst_animate effect_transition_def)

text \<open>
  Claim C8, amended. On a tick whose effect is \<open>wave\<close>, equal to the stored
  \<open>last_effect\<close>, with \<open>wave_speed > 0\<close>: when \<open>led_enabled\<close> is true the phase after
  the tick is the phase before plus \<open>0.05 * wave_speed\<close>, hence strictly greater,
  whatever the mode and the brightness are; when \<open>led_enabled\<close> is false the tick
  leaves the phase unchanged.
\<close>

theorem wave_phase_advance:
  assumes "led_effect s = ''wave''" and "last_effect st = Some ''wave''" and "0 < wave_speed s"
  shows "(led_enabled s \<longrightarrow>
            wave_phase (fst (animate s t st)) = wave_phase st + 0.05 * wave_speed s \<and>
            wave_phase st < wave_phase (fst (animate s t st))) \<and>
         (\<not> led_enabled s \<longrightarrow> wave_phase (fst (animate s t st)) = wave_phase st)"
proof -
  have "effect_transition s st = st"
    using assms(1,2) by (simp add: effect_transition_same)
  then show ?thesis
    using assms(1,3) by (simp add: fst_animate)
qed

theorem wave_phase_advance_witness:
  "wave_phase (fst (animate \<lparr>led_enabled = True, led_mode = ''both'', led_effect = ''wave'',
      brightness_raw = 121, wave_speed = 2\<rparr> 0 \<lparr>wave_phase = 1, last_effect = Some ''wave''\<rparr>)) = 1.1 \<and>
   wave_phase (fst (animate \<lparr>led_enabled = False, led_mode = ''both'', led_effect = ''wave'',
      brightness_raw = 121, wave_speed = 2\<rparr> 0 \<lparr>wave_phase = 1, last_effect = Some ''wave''\<rparr>)) = 1"
  using wave_phase_advance [of "\<lparr>led_enabled = True, led_mode = ''both'', led_effect = ''wave'',
      brightness_raw = 121, wave_speed = 2\<rparr>" "\<lparr>wave_phase = 1, last_effect = Some ''wave''\<rparr>" 0]
    wave_phase_advance [of "\<lparr>led_enabled = False, led_mode = ''both'', led_effect = ''wave'',
      brightness_raw = 121, wave_speed = 2\<rparr>" "\<lparr>wave_phase = 1, last_effect = Some ''wave''\<rparr>" 0]
  by simp

text \<open>
  Claim C9. When \<open>led_mode\<close> is none of \<open>bottom\<close>, \<open>top\<close> and \<open>both\<close>, the pair of a
  tick is \<open>(0, 0)\<close> for every effect, brightness and value of \<open>led_enabled\<close>, and no
  tick under these settings ends in an exception that the loop does not catch.
\<close>

theorem unknown_mode_output:
  assumes "led_mode s \<noteq> ''bottom''" and "led_mode s \<noteq> ''top''" and "led_mode s \<noteq> ''both''"
  shows "snd (animate s t st) = (0, 0) \<and>
         (\<forall>env dev e. snd (usb_tick env s (dev, st)) \<noteq> Uncaught e)"
proof -
  have z: "\<And>u. snd (animate s u st) = (0, 0)"
    using assms by (rule animate_unknown_mode)
  show ?thesis
    using z usb_tick_zero [OF z] by simp
qed

theorem unknown_mode_output_witness:
  "snd (animate \<lparr>led_enabled = True, led_mode = ''middle'', led_effect = ''static'',
      brightness_raw = 242, wave_speed = 1\<rparr> 0 \<lparr>wave_phase = 0, last_effect = None\<rparr>) = (0, 0)"
  using unknown_mode_output [of "\<lparr>led_enabled = True, led_mode = ''middle'', led_effect = ''static'',
      brightness_raw = 242, wave_speed = 1\<rparr>" 0 "\<lparr>wave_phase = 0, last_effect = None\<rparr>"]
  by simp

subsection \<open>The control loop\<close>

text \<open>
  Claim C1 says that a transfer failure in the middle of a tick leaves the interface
  released and that the next tick starts after the sleep of 0.5 s. The second half
  holds; the first does not. At the default settings (lines 23 to 27), starting with
  the interface free: a tick whose first transfer raises \<open>USBError\<close> ends with the
  interface still claimed, nothing sent, and the sleep of 0.5 s; a tick whose second
  transfer raises ends with the interface still claimed, the brightness command sent,
  and the sleep of 0.5 s. Only the tick without a failure reaches
  \<open>release_interface\<close> (line 93) and sleeps 0.05 s. A loop that is stopped after the
  failed tick returns with the interface claimed.
\<close>

theorem transfer_failure_keeps_claim:
  "usb_tick \<lparr>now = 0, claim_ok = True, transfer1_ok = False, transfer2_ok = True,
        release_ok = True\<rparr>
      \<lparr>led_enabled = True, led_mode = ''bottom'', led_effect = ''static'', brightness_raw = 24,
        wave_speed = 1\<rparr>
      (\<lparr>claimed = False, sent = []\<rparr>, \<lparr>wave_phase = 0, last_effect = None\<rparr>) =
    ((\<lparr>claimed = True, sent = []\<rparr>, \<lparr>wave_phase = 0, last_effect = Some ''static''\<rparr>),
     Slept 0.5) \<and>
   usb_tick \<lparr>now = 0, claim_ok = True, transfer1_ok = True, transfer2_ok = False,
        release_ok = True\<rparr>
      \<lparr>led_enabled = True, led_mode = ''bottom'', led_effect = ''static'', brightness_raw = 24,
        wave_speed = 1\<rparr>
      (\<lparr>claimed = False, sent = []\<rparr>, \<lparr>wave_phase = 0, last_effect = None\<rparr>) =
    ((\<lparr>claimed = True, sent = [[0x81, 24, 0, 0, 0x81, 0] @ replicate 58 0]\<rparr>,
      \<lparr>wave_phase = 0, last_effect = Some ''static''\<rparr>),
     Slept 0.5) \<and>
   usb_tick \<lparr>now = 0, claim_ok = True, transfer1_ok = True, transfer2_ok = True,
        release_ok = True\<rparr>
      \<lparr>led_enabled = True, led_mode = ''bottom'', led_effect = ''static'', brightness_raw = 24,
        wave_speed = 1\<rparr>
      (\<lparr>claimed = False, sent = []\<rparr>, \<lparr>wave_phase = 0, last_effect = None\<rparr>) =
    ((\<lparr>claimed = False, sent = [[0x81, 24, 0, 0, 0x81, 0] @ replicate 58 0,
                                  [0x04, 24, 0, 0, 0, 0, 0, 0, 0x01] @ replicate 55 0]\<rparr>,
      \<lparr>wave_phase = 0, last_effect = Some ''static''\<rparr>),
     Slept 0.05) \<and>
   usb_loop (Some \<lparr>claimed = False, sent = []\<rparr>) 0
      [(True,
        \<lparr>led_enabled = True, led_mode = ''bottom'', led_effect = ''static'', brightness_raw = 24,
          wave_speed = 1\<rparr>,
        \<lparr>now = 0, claim_ok = True, transfer1_ok = False, transfer2_ok = True,
          release_ok = True\<rparr>),
       (False,
        \<lparr>led_enabled = True, led_mode = ''bottom'', led_effect = ''static'', brightness_raw = 24,
          wave_speed = 1\<rparr>,
        \<lparr>now = 1, claim_ok = True, transfer1_ok = True, transfer2_ok = True,
          release_ok = True\<rparr>)] =
    Some ((\<lparr>claimed = True, sent = []\<rparr>, \<lparr>wave_phase = 0, last_effect = Some ''static''\<rparr>),
          [Slept 0.5])"
proof -
  have c: "brightness_cmd 24 0 = Inr ([0x81, 24, 0, 0, 0x81, 0] @ replicate 58 0)"
    using brightness_cmd_ok [of 24 0] by simp
  have h: "heartbeat_cmd 24 0 = Inr ([0x04, 24, 0, 0, 0, 0, 0, 0, 0x01] @ replicate 55 0)"
    using heartbeat_cmd_ok [of 24 0] by simp
  show ?thesis
    by (simp add: usb_loop_def usb_tick_def Let_def default_animate c h)
qed

text \<open>
  Claim C10. On a tick with \<open>led_enabled\<close> false in which the claim, both transfers
  and the release succeed, the loop sends two payloads, in this order: the brightness
  command with 0 at offsets 1 and 5, then the heartbeat command (0x04 at offset 0) with
  0 at offset 1. The interface is released and the tick ends in the sleep of 0.05 s.
\<close>

theorem disabled_still_transmits:
  assumes "\<not> led_enabled s"
    and "claim_ok env" and "transfer1_ok env" and "transfer2_ok env" and "release_ok env"
  shows "usb_tick env s (dev, st) =
           ((dev\<lparr>claimed := False,
                 sent := sent dev @ [[0x81, 0, 0, 0, 0x81, 0] @ replicate 58 0,
                                     [0x04, 0, 0, 0, 0, 0, 0, 0, 0x01] @ replicate 55 0]\<rparr>,
             effect_transition s st), Slept 0.05) \<and>
         ([0x81, 0, 0, 0, 0x81, 0] @ replicate 58 (0::byte)) ! 1 = 0 \<and>
         ([0x81, 0, 0, 0, 0x81, 0] @ replicate 58 (0::byte)) ! 5 = 0 \<and>
         ([0x04, 0, 0, 0, 0, 0, 0, 0, 0x01] @ replicate 55 (0::byte)) ! 0 = 0x04 \<and>
         ([0x04, 0, 0, 0, 0, 0, 0, 0, 0x01] @ replicate 55 (0::byte)) ! 1 = 0"
proof -
  have a: "animate s (now env) st = (effect_transition s st, 0, 0)"
    using assms(1) by (simp add: animate_def Let_def)
  have c: "brightness_cmd 0 0 = Inr ([0x81, 0, 0, 0, 0x81, 0] @ replicate 58 0)"
    using brightness_cmd_ok [of 0 0] by simp
  have h: "heartbeat_cmd 0 0 = Inr ([0x04, 0, 0, 0, 0, 0, 0, 0, 0x01] @ replicate 55 0)"
    using heartbeat_cmd_ok [of 0 0] by simp
  have "usb_tick env s (dev, st) =
           ((dev\<lparr>claimed := False,
                 sent := sent dev @ [[0x81, 0, 0, 0, 0x81, 0] @ replicate 58 0,
                                     [0x04, 0, 0, 0, 0, 0, 0, 0, 0x01] @ replicate 55 0]\<rparr>,
             effect_transition s st), Slept 0.05)"
    using assms(2-5) a c h by (rule usb_tick_success)
  then show ?thesis by simp
qed

theorem disabled_still_transmits_witness:
  "sent (fst (fst (usb_tick \<lparr>now = 0, claim_ok = True, transfer1_ok = True, transfer2_ok = True,
        release_ok = True\<rparr>
      \<lparr>led_enabled = False, led_mode = ''both'', led_effect = ''static'', brightness_raw = 242,
        wave_speed = 1\<rparr>
      (\<lparr>claimed = False, sent = []\<rparr>, \<lparr>wave_phase = 0, last_effect = None\<rparr>)))) =
    [[0x81, 0, 0, 0, 0x81, 0] @ replicate 58 0, [0x04, 0, 0, 0, 0, 0, 0, 0, 0x01] @ replicate 55 0]"
  using disabled_still_transmits [of "\<lparr>led_enabled = False, led_mode = ''both'', led_effect = ''static'',
        brightness_raw = 242, wave_speed = 1\<rparr>"
      "\<lparr>now = 0, claim_ok = True, transfer1_ok = True, transfer2_ok = True, release_ok = True\<rparr>"
      "\<lparr>claimed = False, sent = []\<rparr>" "\<lparr>wave_phase = 0, last_effect = None\<rparr>"]
  by simp

end
